theory Spec2Isabelle
  imports Main
begin

section \<open>The editable-list component\<close>

text \<open>
  A shallow embedding of \<^verbatim>\<open>src/editable-list.js\<close>, the \<^verbatim>\<open>EditableList\<close> custom
  element. The element keeps no data of its own: the list lives in the shadow tree, as
  the \<^verbatim>\<open>li\<close> children of \<^verbatim>\<open>ul.item-list\<close>, and every method reads it back from there.
  The model therefore is a record of the parts of the tree and of the element that the
  methods read or write, passed through every operation and returned updated.

  The element is connected (\<^verbatim>\<open>connectedCallback\<close> has run, so \<^verbatim>\<open>shadowRoot\<close> is there).
  What the browser does is not code of the element and is a parameter of every
  operation: how a string written into a wrapper as markup reads back through
  \<^verbatim>\<open>innerHTML\<close> and through \<^verbatim>\<open>innerText\<close>, and how a \<^verbatim>\<open>textarea\<close> decodes markup. Every
  item has one wrapper: a value whose markup would add elements that the selectors of
  the source match (\<^verbatim>\<open>li\<close>, \<^verbatim>\<open>.item-wrapper\<close>), or would close the wrapper, is outside
  the model. Styling (tool bar visibility, the \<^verbatim>\<open>defocused\<close> class) is left out: no
  method reads it back.

  Names are those of the source, the private \<^verbatim>\<open>#_name\<close> as \<open>name\<close>;
  \<^verbatim>\<open>#_changeItem\<close> is \<open>changeItem_private\<close>, next to the public \<^verbatim>\<open>changeItem\<close>.
\<close>

subsection \<open>Strings\<close>

text \<open>
  \<^verbatim>\<open>String.prototype.trim\<close> removes white space and line terminators from both ends.
  Characters are the code units below 256; of the ECMAScript white space these are
  TAB, LF, VT, FF, CR, SP and NBSP.
\<close>

definition isWhiteSpace :: "char \<Rightarrow> bool" where
  "isWhiteSpace c =
     (c = CHR 0x09 \<or> c = CHR 0x0A \<or> c = CHR 0x0B \<or> c = CHR 0x0C \<or> c = CHR 0x0D
      \<or> c = CHR 0x20 \<or> c = CHR 0xA0)"

definition trim :: "string \<Rightarrow> string" where
  "trim s = rev (dropWhile isWhiteSpace (rev (dropWhile isWhiteSpace s)))"

text \<open>\<^verbatim>\<open>s.startsWith(p)\<close> and \<^verbatim>\<open>s.includes(sub)\<close>: \<open>sub\<close> occurs in \<open>s\<close> at some position.\<close>

definition startsWith :: "string \<Rightarrow> string \<Rightarrow> bool" where
  "startsWith s p = (take (length p) s = p)"

fun includes_str :: "string \<Rightarrow> string \<Rightarrow> bool" where
  "includes_str [] sub = (sub = [])"
| "includes_str (c # cs) sub = (startsWith (c # cs) sub \<or> includes_str cs sub)"

subsection \<open>The browser\<close>

text \<open>
  The three things the source asks of the browser about the content of a wrapper.
  For a string \<open>s\<close> written into a wrapper as markup (\<^verbatim>\<open>li.innerHTML = ...\<close> with the
  template of \<^verbatim>\<open>#_itemHTML\<close>, the template of \<^verbatim>\<open>#_init\<close>, or \<^verbatim>\<open>itemWrapper.innerHTML = s\<close>):
  \<open>markup s\<close> is what \<^verbatim>\<open>innerHTML\<close> of the wrapper reads afterwards (the parsed content,
  serialised: \<^verbatim>\<open>a<b>c\<close> reads \<^verbatim>\<open>a<b>c</b>\<close>) and \<open>rendered s\<close> is what \<^verbatim>\<open>innerText\<close> reads
  (the text as rendered: tags are gone, white space is collapsed and trimmed).
  \<open>decoded h\<close> is \<^verbatim>\<open>#_decodeHtml(h)\<close>: the value of a \<^verbatim>\<open>textarea\<close> whose \<^verbatim>\<open>innerHTML\<close> was set
  to \<open>h\<close>, which is \<open>h\<close> with its character references decoded (\<^verbatim>\<open>&lt;\<close> reads \<^verbatim>\<open><\<close>).
\<close>

record browser =
  markup :: "string \<Rightarrow> string"
  rendered :: "string \<Rightarrow> string"
  decoded :: "string \<Rightarrow> string"

subsection \<open>The element and its shadow tree\<close>

text \<open>
  What \<^verbatim>\<open>div.item-wrapper\<close> of an item holds: what the parser made of the string last
  written into it, or, while the item is edited, the \<^verbatim>\<open>input\<close> that \<^verbatim>\<open>#_itemEdit\<close> put
  there, with its current \<^verbatim>\<open>value\<close> and the \<^verbatim>\<open>_value\<close> saved when editing began. The edit
  input has the focus from \<^verbatim>\<open>inp.focus()\<close> in \<^verbatim>\<open>#_itemEdit\<close> until it loses it (\<^verbatim>\<open>blur\<close>).
\<close>

datatype wrapper = Text string | Input string string

record li =
  selected :: bool
  content :: wrapper

text \<open>The values of \<^verbatim>\<open>detail\<close> fields, and an object literal as its fields in order.\<close>

datatype jsval = Null | Str string

type_synonym detail = "(string \<times> jsval) list"

record state =
  attrs :: "(string \<times> string) list"
  lis :: "li list"
  editing :: bool
  textInput :: string
  alerts :: "string list"
  events :: "detail list"

text \<open>
  \<open>attrs\<close> are the element's attributes in document order, \<open>lis\<close> the \<^verbatim>\<open>li\<close> children of
  \<^verbatim>\<open>ul.item-list\<close>, \<open>editing\<close> is \<^verbatim>\<open>this._editing\<close>, \<open>textInput\<close> the value of
  \<^verbatim>\<open>input.add-new-list-item-input\<close>. \<open>alerts\<close> logs the messages shown by \<^verbatim>\<open>alert\<close> and
  \<open>events\<close> the \<^verbatim>\<open>detail\<close> of every \<^verbatim>\<open>change\<close> event given to \<^verbatim>\<open>dispatchEvent\<close>,
  oldest first. An \<^verbatim>\<open>li\<close> element is named by its position among the children.
\<close>

datatype event = KeyboardEvent string | OtherEvent

text \<open>
  The test both UI handlers start with:
  \<^verbatim>\<open>(e instanceof KeyboardEvent && e.key === "Enter") || !(e instanceof KeyboardEvent)\<close>.
\<close>

fun enterOrOther :: "event \<Rightarrow> bool" where
  "enterOrOther (KeyboardEvent k) = (k = ''Enter'')"
| "enterOrOther OtherEvent = True"

definition getAttribute :: "state \<Rightarrow> string \<Rightarrow> string option" where
  "getAttribute st name = map_of (attrs st) name"

definition duplicatePromptDefault :: string where
  "duplicatePromptDefault = ''This value already exists!''"

text \<open>\<^verbatim>\<open>this.getAttribute('duplicate-prompt') || EditableList.#_duplicatePromptDefault\<close>:
  \<^verbatim>\<open>null\<close> and the empty string are falsy.\<close>

definition duplicatePrompt :: "state \<Rightarrow> string" where
  "duplicatePrompt st =
     (case getAttribute st ''duplicate-prompt'' of
        None \<Rightarrow> duplicatePromptDefault
      | Some p \<Rightarrow> if p = [] then duplicatePromptDefault else p)"

definition allowDuplicates :: "state \<Rightarrow> bool" where
  "allowDuplicates st = (getAttribute st ''allow-duplicates'' \<noteq> Some ''false'')"

text \<open>
  \<^verbatim>\<open>itemWrapper.innerText\<close> and \<^verbatim>\<open>itemWrapper.innerHTML\<close>. A wrapper that holds only the
  edit input has no text, and its markup is the \<^verbatim>\<open>input\<close> tag with the class that
  \<^verbatim>\<open>#_itemEdit\<close> gave it.
\<close>

fun innerText :: "browser \<Rightarrow> wrapper \<Rightarrow> string" where
  "innerText br (Text s) = rendered br s"
| "innerText br (Input v pv) = []"

fun innerHTML :: "browser \<Rightarrow> wrapper \<Rightarrow> string" where
  "innerHTML br (Text s) = markup br s"
| "innerHTML br (Input v pv) = ''<input class=\"edit-list-item-input\">''"

definition decodeHtml :: "browser \<Rightarrow> string \<Rightarrow> string" where
  "decodeHtml br html = decoded br html"

definition alert :: "string \<Rightarrow> state \<Rightarrow> state" where
  "alert msg st = st\<lparr>alerts := alerts st @ [msg]\<rparr>"

definition dispatchEvent :: "detail \<Rightarrow> state \<Rightarrow> state" where
  "dispatchEvent d st = st\<lparr>events := events st @ [d]\<rparr>"

subsection \<open>Initialisation and look-up\<close>

text \<open>\<^verbatim>\<open>#_initialItems\<close>: the \<^verbatim>\<open>forEach\<close> over the attributes, pushing onto \<open>items\<close>.\<close>

fun initialItems_loop :: "(string \<times> string) list \<Rightarrow> string list \<Rightarrow> string list" where
  "initialItems_loop [] items = items"
| "initialItems_loop ((name, val) # as) items =
     initialItems_loop as (if includes_str name ''list-item'' then items @ [val] else items)"

definition initialItems :: "(string \<times> string) list \<Rightarrow> string list" where
  "initialItems as = initialItems_loop as []"

text \<open>
  \<^verbatim>\<open>#_itemHTML(item)\<close> inside a fresh \<^verbatim>\<open>li\<close>: the string \<open>item\<close> is written into the wrapper
  as markup; the \<^verbatim>\<open>li\<close> is not selected.
\<close>

definition itemHTML :: "string \<Rightarrow> li" where
  "itemHTML item = \<lparr>selected = False, content = Text item\<rparr>"

text \<open>\<^verbatim>\<open>connectedCallback\<close> with \<^verbatim>\<open>#_init\<close>: one \<^verbatim>\<open>li\<close> per initial item.\<close>

definition connectedCallback :: "(string \<times> string) list \<Rightarrow> state" where
  "connectedCallback as =
     \<lparr>attrs = as, lis = map itemHTML (initialItems as), editing = False,
      textInput = [], alerts = [], events = []\<rparr>"

text \<open>
  \<^verbatim>\<open>#_valueExists(newValue, item)\<close>: the loop over the wrappers with its \<^verbatim>\<open>break\<close>;
  \<open>item\<close> is the position of the wrapper to skip, \<open>None\<close> for \<^verbatim>\<open>null\<close>.
\<close>

fun valueExists_loop :: "browser \<Rightarrow> li list \<Rightarrow> nat \<Rightarrow> string \<Rightarrow> nat option \<Rightarrow> bool" where
  "valueExists_loop br [] i newValue item = False"
| "valueExists_loop br (l # ls) i newValue item =
     (if Some i \<noteq> item \<and> innerText br (content l) = newValue then True
      else valueExists_loop br ls (Suc i) newValue item)"

definition valueExists :: "browser \<Rightarrow> state \<Rightarrow> string \<Rightarrow> nat option \<Rightarrow> bool" where
  "valueExists br st newValue item = valueExists_loop br (lis st) 0 newValue item"

text \<open>\<^verbatim>\<open>#_getLiAtIndex\<close>: \<^verbatim>\<open>children[index] || null\<close> for an integer index.\<close>

definition getLiAtIndex :: "state \<Rightarrow> int \<Rightarrow> nat option" where
  "getLiAtIndex st index =
     (if 0 \<le> index \<and> index < int (length (lis st)) then Some (nat index) else None)"

text \<open>\<^verbatim>\<open>#_cleanSelection\<close> and \<^verbatim>\<open>#_liSelected\<close> for a click on the \<^verbatim>\<open>li\<close> at position \<open>i\<close>.\<close>

definition cleanSelection :: "state \<Rightarrow> state" where
  "cleanSelection st = st\<lparr>lis := map (\<lambda>l. l\<lparr>selected := False\<rparr>) (lis st)\<rparr>"


subsection \<open>Changing a value and ending an edit\<close>

text \<open>\<^verbatim>\<open>#_changeItem(li, newValue, previousValue)\<close> and the object it returns.\<close>

record result =
  val :: string
  accepted :: bool
  differs :: bool

definition changeItem_private ::
  "browser \<Rightarrow> nat \<Rightarrow> string \<Rightarrow> string \<Rightarrow> state \<Rightarrow> result \<times> state" where
  "changeItem_private br i newValue previousValue st =
     (let v1 = (if trim newValue = [] then previousValue else newValue);
          rejected = (\<not> allowDuplicates st \<and> valueExists br st v1 (Some i));
          v2 = (if rejected then previousValue else v1);
          st1 = st\<lparr>editing := False,
                   lis := (lis st)[i := (lis st ! i)\<lparr>content := Text v2\<rparr>]\<rparr>
      in (\<lparr>val = v2, accepted = \<not> rejected, differs = (v2 \<noteq> previousValue)\<rparr>, st1))"

text \<open>
  A handler gets the event and, where the source goes from \<^verbatim>\<open>e.target\<close> to its \<^verbatim>\<open>li\<close> with
  \<^verbatim>\<open>#_getLi\<close>, the position \<open>i\<close> of that \<^verbatim>\<open>li\<close>. The target of an event is an element of the
  tree, so a handler is only ever called with \<open>i < length (lis st)\<close>; the definitions
  return the state as it is otherwise.

  \<^verbatim>\<open>#_itemEditFinished\<close>, on \<^verbatim>\<open>blur\<close> and \<^verbatim>\<open>keypress\<close> of the edit input in item \<open>i\<close>. Only
  that input has these listeners, so the wrapper of the target holds an input.
\<close>

definition itemEditFinished :: "browser \<Rightarrow> event \<Rightarrow> nat \<Rightarrow> state \<Rightarrow> state" where
  "itemEditFinished br e i st =
     (if \<not> editing st \<or> length (lis st) \<le> i then st
      else if enterOrOther e then
        (case content (lis st ! i) of
           Text _ \<Rightarrow> st
         | Input v previousValue \<Rightarrow>
             (let (res, st1) = changeItem_private br i v previousValue st;
                  st2 = (if \<not> accepted res \<and> trim (duplicatePrompt st1) \<noteq> []
                         then alert (duplicatePrompt st1) st1 else st1)
              in if differs res
                 then dispatchEvent
                        [(''action'', Str ''edit''), (''previous'', Str previousValue),
                         (''new'', Str (val res))] st2
                 else st2))
      else st)"

text \<open>
  The focused edit input leaves the tree. When a call takes the \<^verbatim>\<open>li\<close> at position \<open>k\<close>
  out of the tree (\<^verbatim>\<open>li.remove()\<close>, the \<^verbatim>\<open>insertBefore\<close> that moves it, \<^verbatim>\<open>innerHTML = ""\<close> of
  the list) and its wrapper holds the edit input, the input loses the focus and the
  browser fires \<^verbatim>\<open>blur\<close> at it inside that call: the listener that \<^verbatim>\<open>#_itemEdit\<close> attached
  runs \<^verbatim>\<open>#_itemEditFinished\<close> with an event that is no \<^verbatim>\<open>KeyboardEvent\<close>, while the other
  items are still in the tree.
\<close>

definition blur :: "browser \<Rightarrow> nat \<Rightarrow> state \<Rightarrow> state" where
  "blur br k st =
     (if length (lis st) \<le> k then st
      else (case content (lis st ! k) of
              Text _ \<Rightarrow> st
            | Input _ _ \<Rightarrow> itemEditFinished br OtherEvent k st))"

text \<open>The position of the \<^verbatim>\<open>li\<close> whose wrapper holds the edit input, from position \<open>n\<close> on.\<close>

fun editedIndex :: "li list \<Rightarrow> nat \<Rightarrow> nat option" where
  "editedIndex [] n = None"
| "editedIndex (l # ls) n =
     (case content l of Text _ \<Rightarrow> editedIndex ls (Suc n) | Input _ _ \<Rightarrow> Some n)"

subsection \<open>Moving and removing an item\<close>

text \<open>
  \<^verbatim>\<open>parent.insertBefore(node, ref)\<close> on a list of children: the child at position \<open>a\<close>
  is taken out and put back in front of the child that was at position \<open>b\<close>.
\<close>

definition insertBefore :: "nat \<Rightarrow> nat \<Rightarrow> 'a list \<Rightarrow> 'a list" where
  "insertBefore a b xs =
     (let x = xs ! a;
          ys = take a xs @ drop (Suc a) xs;
          b' = (if a < b then b - 1 else b)
      in take b' ys @ [x] @ drop b' ys)"

text \<open>
  \<^verbatim>\<open>#_moveUpListItem\<close>, \<^verbatim>\<open>#_moveDownListItem\<close> and \<^verbatim>\<open>#_removeListItem\<close> for the \<^verbatim>\<open>li\<close> at
  position \<open>i\<close>. The first two return whether the item moved:
  \<^verbatim>\<open>previousElementSibling\<close> is \<^verbatim>\<open>null\<close> for the first child, \<^verbatim>\<open>nextElementSibling\<close> for
  the last one. \<^verbatim>\<open>insertBefore(li, prev)\<close> takes \<^verbatim>\<open>li\<close> out of the tree and puts it back,
  \<^verbatim>\<open>insertBefore(next, li)\<close> does so with \<^verbatim>\<open>next\<close>, and \<^verbatim>\<open>li.remove()\<close> takes \<^verbatim>\<open>li\<close> out.
\<close>

definition moveUpListItem :: "browser \<Rightarrow> nat \<Rightarrow> state \<Rightarrow> bool \<times> state" where
  "moveUpListItem br i st =
     (if i = 0 then (False, st)
      else (let st1 = blur br i st
            in (True, st1\<lparr>lis := insertBefore i (i - 1) (lis st1)\<rparr>)))"

definition moveDownListItem :: "browser \<Rightarrow> nat \<Rightarrow> state \<Rightarrow> bool \<times> state" where
  "moveDownListItem br i st =
     (if length (lis st) \<le> Suc i then (False, st)
      else (let st1 = blur br (Suc i) st
            in (True, st1\<lparr>lis := insertBefore (Suc i) i (lis st1)\<rparr>)))"

definition removeListItem :: "browser \<Rightarrow> nat \<Rightarrow> state \<Rightarrow> state" where
  "removeListItem br i st =
     (let st1 = blur br i st
      in st1\<lparr>lis := take i (lis st1) @ drop (Suc i) (lis st1)\<rparr>)"

subsection \<open>Public methods\<close>

definition items :: "browser \<Rightarrow> state \<Rightarrow> string list" where
  "items br st = map (\<lambda>l. decodeHtml br (innerHTML br (content l))) (lis st)"

text \<open>
  \<^verbatim>\<open>addItems\<close>: the \<^verbatim>\<open>forEach\<close> over \<open>listItems\<close>; each value is looked up among the
  wrappers present at that moment, those appended earlier in the same call included.
\<close>

fun addItems :: "browser \<Rightarrow> string list \<Rightarrow> state \<Rightarrow> state" where
  "addItems br [] st = st"
| "addItems br (listItem # listItems) st =
     addItems br listItems
       (if allowDuplicates st \<or> \<not> valueExists br st listItem None
        then st\<lparr>lis := lis st @ [itemHTML listItem]\<rparr> else st)"

definition changeItem :: "browser \<Rightarrow> int \<Rightarrow> string \<Rightarrow> state \<Rightarrow> state" where
  "changeItem br index newValue st =
     (case getLiAtIndex st index of
        None \<Rightarrow> st
      | Some i \<Rightarrow>
          if editing st then st
          else snd (changeItem_private br i newValue (innerText br (content (lis st ! i)))
                      (st\<lparr>editing := True\<rparr>)))"

definition removeItem :: "browser \<Rightarrow> int \<Rightarrow> state \<Rightarrow> state" where
  "removeItem br index st =
     (case getLiAtIndex st index of None \<Rightarrow> st | Some i \<Rightarrow> removeListItem br i st)"

definition moveItemUp :: "browser \<Rightarrow> int \<Rightarrow> state \<Rightarrow> state" where
  "moveItemUp br index st =
     (case getLiAtIndex st index of None \<Rightarrow> st | Some i \<Rightarrow> snd (moveUpListItem br i st))"

definition moveItemDown :: "browser \<Rightarrow> int \<Rightarrow> state \<Rightarrow> state" where
  "moveItemDown br index st =
     (case getLiAtIndex st index of None \<Rightarrow> st | Some i \<Rightarrow> snd (moveDownListItem br i st))"

text \<open>\<^verbatim>\<open>removeAllItems\<close>: \<^verbatim>\<open>innerHTML = ""\<close> takes every \<^verbatim>\<open>li\<close> out of the tree.\<close>

definition removeAllItems :: "browser \<Rightarrow> state \<Rightarrow> state" where
  "removeAllItems br st =
     (let st1 = (case editedIndex (lis st) 0 of None \<Rightarrow> st | Some k \<Rightarrow> blur br k st)
      in st1\<lparr>lis := []\<rparr>)"

definition unselectAllItems :: "state \<Rightarrow> state" where
  "unselectAllItems st = cleanSelection st"

subsection \<open>Handlers of user gestures\<close>


text \<open>\<^verbatim>\<open>#_itemEdit\<close>, on \<^verbatim>\<open>dblclick\<close> (or a double tap) on the wrapper of item \<open>i\<close>.\<close>

definition itemEdit :: "browser \<Rightarrow> nat \<Rightarrow> state \<Rightarrow> state" where
  "itemEdit br i st =
     (if editing st \<or> length (lis st) \<le> i then st
      else (let t = innerText br (content (lis st ! i))
            in st\<lparr>editing := True,
                  lis := (lis st)[i := (lis st ! i)\<lparr>content := Input t t\<rparr>]\<rparr>))"

text \<open>
  The user typing into the edit input of item \<open>i\<close>: the browser sets \<^verbatim>\<open>inp.value\<close>.
  This is the environment, not a method of the element.
\<close>

definition userTypes :: "nat \<Rightarrow> string \<Rightarrow> state \<Rightarrow> state" where
  "userTypes i v st =
     (if length (lis st) \<le> i then st
      else (case content (lis st ! i) of
              Input _ pv \<Rightarrow> st\<lparr>lis := (lis st)[i := (lis st ! i)\<lparr>content := Input v pv\<rparr>]\<rparr>
            | Text _ \<Rightarrow> st))"




subsection \<open>Example elements\<close>

text \<open>
  A browser on plain text, for the examples: for a string of letters, digits and
  blanks, without markup and without character references, \<^verbatim>\<open>innerHTML\<close> reads the string
  back, a \<^verbatim>\<open>textarea\<close> decodes it to itself, and \<^verbatim>\<open>innerText\<close> is the string with its
  white space collapsed and the white space at both ends gone. \<open>squeeze\<close> keeps in its
  first argument whether white space has been passed since the last character written.
\<close>

definition isSpace :: "char \<Rightarrow> bool" where
  "isSpace c =
     (c = CHR 0x09 \<or> c = CHR 0x0A \<or> c = CHR 0x0C \<or> c = CHR 0x0D \<or> c = CHR 0x20)"

fun squeeze :: "bool \<Rightarrow> string \<Rightarrow> string" where
  "squeeze p [] = []"
| "squeeze p (c # cs) =
     (if isSpace c then squeeze True cs
      else if p then CHR 0x20 # c # squeeze False cs
      else c # squeeze False cs)"

definition plainInnerText :: "string \<Rightarrow> string" where
  "plainInnerText s = squeeze False (dropWhile isSpace s)"

definition plainText :: browser where
  "plainText = \<lparr>markup = (\<lambda>s. s), rendered = plainInnerText, decoded = (\<lambda>h. h)\<rparr>"

text \<open>
  \<^verbatim>\<open><editable-list list-item-1="a" list-item-2="b" list-item-3="c">\<close>,
  \<^verbatim>\<open><editable-list allow-duplicates="false" list-item-1="a">\<close>, the same with a prompt of
  one space, the same with \<^verbatim>\<open>allow-duplicates="False"\<close>, and an element without
  attributes, once connected.
\<close>

definition ex_abc :: state where
  "ex_abc = connectedCallback
     [(''list-item-1'', ''a''), (''list-item-2'', ''b''), (''list-item-3'', ''c'')]"

definition ex_dup :: state where
  "ex_dup = connectedCallback [(''allow-duplicates'', ''false''), (''list-item-1'', ''a'')]"



definition ex_none :: state where
  "ex_none = connectedCallback []"

text \<open>The second item of \<open>ex_abc\<close> under edit, with \<open>z\<close> typed over its value.\<close>

definition ex_edit :: state where
  "ex_edit = userTypes (Suc 0) ''z'' (itemEdit plainText (Suc 0) ex_abc)"

subsection \<open>States in which no item is being edited\<close>

fun isText :: "wrapper \<Rightarrow> bool" where
  "isText (Text t) = True"
| "isText (Input v pv) = False"

definition noItemEdited :: "state \<Rightarrow> bool" where
  "noItemEdited st = list_all (\<lambda>l. isText (content l)) (lis st)"

section \<open>Properties\<close>

subsection \<open>Strings and lists\<close>

lemma startsWith_iff: "startsWith s p \<longleftrightarrow> (\<exists>q. s = p @ q)"
  unfolding startsWith_def
  by (metis append_eq_conv_conj append_take_drop_id)

text \<open>\<open>includes_str\<close> is the substring test of \<^verbatim>\<open>String.prototype.includes\<close>.\<close>

lemma includes_str_iff: "includes_str s sub \<longleftrightarrow> (\<exists>p q. s = p @ sub @ q)"
proof (induction s)
  case Nil
  then show ?case by auto
next
  case (Cons c cs)
  have "(\<exists>p q. c # cs = p @ sub @ q) \<longleftrightarrow>
        (\<exists>q. c # cs = sub @ q) \<or> (\<exists>p' q. cs = p' @ sub @ q)"
    (is "?L \<longleftrightarrow> ?A \<or> ?B")
  proof
    assume ?L
    then obtain p q where pq: "c # cs = p @ sub @ q" by blast
    show "?A \<or> ?B"
    proof (cases p)
      case Nil
      with pq show ?thesis by auto
    next
      case (Cons a p')
      with pq show ?thesis by auto
    qed
  next
    assume "?A \<or> ?B"
    then show ?L
    proof
      assume ?A
      then obtain q where "c # cs = [] @ sub @ q" by auto
      then show ?L by blast
    next
      assume ?B
      then obtain p' q where "cs = p' @ sub @ q" by blast
      then have "c # cs = (c # p') @ sub @ q" by simp
      then show ?L by blast
    qed
  qed
  with Cons show ?case by (simp add: startsWith_iff)
qed






subsection \<open>The example elements\<close>


lemma plainText_simps:
  "markup plainText s = s" "decoded plainText h = h" "rendered plainText s = plainInnerText s"
  by (simp_all add: plainText_def)

lemma plainInnerText_examples:
  "plainInnerText ''a'' = ''a''" "plainInnerText ''b'' = ''b''" "plainInnerText ''c'' = ''c''"
  "plainInnerText ''z'' = ''z''" "plainInnerText ''d'' = ''d''" "plainInnerText ''a '' = ''a''"
  by (simp_all add: plainInnerText_def isSpace_def)

lemma trim_examples: "trim '' '' = []" "trim ''a'' \<noteq> []" "trim ''z'' \<noteq> []" "trim ''d'' \<noteq> []"
  by (simp_all add: trim_def isWhiteSpace_def)

lemma ex_abc_eq:
  "ex_abc = \<lparr>attrs = [(''list-item-1'', ''a''), (''list-item-2'', ''b''), (''list-item-3'', ''c'')],
            lis = [\<lparr>selected = False, content = Text ''a''\<rparr>,
                   \<lparr>selected = False, content = Text ''b''\<rparr>,
                   \<lparr>selected = False, content = Text ''c''\<rparr>],
            editing = False, textInput = [], alerts = [], events = []\<rparr>"
  by (simp add: ex_abc_def connectedCallback_def initialItems_def startsWith_def itemHTML_def)

lemma ex_dup_eq:
  "ex_dup = \<lparr>attrs = [(''allow-duplicates'', ''false''), (''list-item-1'', ''a'')],
            lis = [\<lparr>selected = False, content = Text ''a''\<rparr>], editing = False,
            textInput = [], alerts = [], events = []\<rparr>"
  by (simp add: ex_dup_def connectedCallback_def initialItems_def startsWith_def itemHTML_def)



lemma ex_none_eq:
  "ex_none = \<lparr>attrs = [], lis = [], editing = False, textInput = [], alerts = [],
             events = []\<rparr>"
  by (simp add: ex_none_def connectedCallback_def initialItems_def)

lemma ex_edit_eq:
  "ex_edit = \<lparr>attrs = [(''list-item-1'', ''a''), (''list-item-2'', ''b''), (''list-item-3'', ''c'')],
             lis = [\<lparr>selected = False, content = Text ''a''\<rparr>,
                    \<lparr>selected = False, content = Input ''z'' ''b''\<rparr>,
                    \<lparr>selected = False, content = Text ''c''\<rparr>],
             editing = True, textInput = [], alerts = [], events = []\<rparr>"
  by (simp add: ex_edit_def ex_abc_eq itemEdit_def userTypes_def Let_def plainText_simps
        plainInnerText_examples)



subsection \<open>Looking a value up\<close>




subsection \<open>Adding a value that is there already\<close>






subsection \<open>The end of an edit, and the edit input leaving the tree\<close>


lemma changeItem_private_frame:
  "events (snd (changeItem_private br k v pv st)) = events st"
  "alerts (snd (changeItem_private br k v pv st)) = alerts st"
  "attrs (snd (changeItem_private br k v pv st)) = attrs st"
  "textInput (snd (changeItem_private br k v pv st)) = textInput st"
  "\<not> editing (snd (changeItem_private br k v pv st))"
  by (simp_all add: changeItem_private_def Let_def)








text \<open>Nothing happens when the wrapper holds no edit input.\<close>

lemma blur_isText: "isText (content (lis st ! k)) \<Longrightarrow> blur br k st = st"
  by (cases "content (lis st ! k)") (simp_all add: blur_def)

lemma editedIndex_None:
  "editedIndex ls n = None \<longleftrightarrow> list_all (\<lambda>l. isText (content l)) ls"
  by (induction ls arbitrary: n) (auto split: wrapper.splits)

lemma blur_noItemEdited: "noItemEdited st \<Longrightarrow> blur br k st = st"
proof (cases "k < length (lis st)")
  case True
  assume "noItemEdited st"
  with True have "isText (content (lis st ! k))"
    by (simp add: noItemEdited_def list_all_length)
  then show ?thesis by (rule blur_isText)
next
  case False
  then show ?thesis by (simp add: blur_def)
qed

subsection \<open>Removing and moving by index\<close>


















subsection \<open>The initial items\<close>

lemma initialItems_loop_eq:
  "initialItems_loop as acc =
   acc @ map snd (filter (\<lambda>a. includes_str (fst a) ''list-item'') as)"
  by (induction as acc rule: initialItems_loop.induct) auto

text \<open>
  One \<^verbatim>\<open>li\<close> for every attribute whose name contains \<^verbatim>\<open>list-item\<close>, in the order of the
  attributes, with the value of the attribute written into its wrapper as markup.
\<close>

lemma lis_connectedCallback:
  "lis (connectedCallback as) =
   map (\<lambda>a. itemHTML (snd a)) (filter (\<lambda>a. includes_str (fst a) ''list-item'') as)"
  by (simp add: connectedCallback_def initialItems_def initialItems_loop_eq comp_def)

text \<open>Every attribute \<^verbatim>\<open>list-item-X\<close> is among them.\<close>

lemma list_item_prefix_includes:
  "startsWith name ''list-item-'' \<Longrightarrow> includes_str name ''list-item''"
proof -
  assume "startsWith name ''list-item-''"
  then obtain q where "name = ''list-item-'' @ q" unfolding startsWith_iff by blast
  then have "name = [] @ ''list-item'' @ (CHR ''-'' # q)" by simp
  then show ?thesis unfolding includes_str_iff by blast
qed

text \<open>
  Claim C7 fails on the code. The class comment and the README give the form
  \<^verbatim>\<open>list-item-X\<close> for the attributes of the initial items, and \<^verbatim>\<open>#_initialItems\<close> tests
  \<^verbatim>\<open>attr.name.includes('list-item')\<close>: the attribute \<^verbatim>\<open>my-list-items="b"\<close> does not match
  \<^verbatim>\<open>list-item-*\<close>, its name contains \<^verbatim>\<open>list-item\<close>, and the element starts with the item
  \<open>b\<close>.
\<close>

theorem initial_item_outside_pattern:
  "\<not> startsWith ''my-list-items'' ''list-item-''
   \<and> includes_str ''my-list-items'' ''list-item''
   \<and> items plainText (connectedCallback [(''my-list-items'', ''b'')]) = [''b'']"
  by (simp add: items_def lis_connectedCallback itemHTML_def decodeHtml_def plainText_simps
        startsWith_def)

theorem initial_item_outside_pattern_witness:
  "items plainText (connectedCallback [(''my-list-items'', ''b'')]) \<noteq> []"
  using initial_item_outside_pattern by simp

subsection \<open>Public methods and the change event\<close>

lemma events_itemEditFinished:
  "events (itemEditFinished br e i st) = events st \<or>
   (\<exists>p n. events (itemEditFinished br e i st) =
     events st @ [[(''action'', Str ''edit''), (''previous'', Str p), (''new'', Str n)]])"
  by (auto simp add: itemEditFinished_def changeItem_private_def Let_def dispatchEvent_def
        alert_def split: wrapper.splits)

lemma events_blur:
  "events (blur br k st) = events st \<or>
   (\<exists>p n. events (blur br k st) =
     events st @ [[(''action'', Str ''edit''), (''previous'', Str p), (''new'', Str n)]])"
proof (cases "blur br k st = st")
  case True
  then show ?thesis by simp
next
  case False
  then have "blur br k st = itemEditFinished br OtherEvent k st"
    by (auto simp add: blur_def split: wrapper.splits)
  then show ?thesis using events_itemEditFinished [of br OtherEvent k st] by simp
qed

lemma events_addItems: "events (addItems br vs st) = events st"
  by (induction br vs st rule: addItems.induct) auto

lemma events_changeItem: "events (changeItem br i v st) = events st"
  by (simp add: changeItem_def changeItem_private_def Let_def split: option.splits)

lemma events_removeListItem: "events (removeListItem br k st) = events (blur br k st)"
  by (simp add: removeListItem_def Let_def)

lemma events_moveUpListItem:
  "events (snd (moveUpListItem br k st)) = events st \<or>
   events (snd (moveUpListItem br k st)) = events (blur br k st)"
  by (simp add: moveUpListItem_def Let_def)

lemma events_moveDownListItem:
  "events (snd (moveDownListItem br k st)) = events st \<or>
   events (snd (moveDownListItem br k st)) = events (blur br (Suc k) st)"
  by (simp add: moveDownListItem_def Let_def)

lemma events_removeItem:
  "events (removeItem br i st) = events st \<or>
   (\<exists>p n. events (removeItem br i st) =
     events st @ [[(''action'', Str ''edit''), (''previous'', Str p), (''new'', Str n)]])"
proof (cases "getLiAtIndex st i")
  case None
  then show ?thesis by (simp add: removeItem_def)
next
  case (Some k)
  then have "events (removeItem br i st) = events (blur br k st)"
    by (simp add: removeItem_def events_removeListItem)
  then show ?thesis using events_blur [of br k st] by simp
qed

lemma events_moveItemUp:
  "events (moveItemUp br i st) = events st \<or>
   (\<exists>p n. events (moveItemUp br i st) =
     events st @ [[(''action'', Str ''edit''), (''previous'', Str p), (''new'', Str n)]])"
proof (cases "getLiAtIndex st i")
  case None
  then show ?thesis by (simp add: moveItemUp_def)
next
  case (Some k)
  then have "moveItemUp br i st = snd (moveUpListItem br k st)"
    by (simp add: moveItemUp_def)
  then show ?thesis
    using events_moveUpListItem [of br k st] events_blur [of br k st] by auto
qed

lemma events_moveItemDown:
  "events (moveItemDown br i st) = events st \<or>
   (\<exists>p n. events (moveItemDown br i st) =
     events st @ [[(''action'', Str ''edit''), (''previous'', Str p), (''new'', Str n)]])"
proof (cases "getLiAtIndex st i")
  case None
  then show ?thesis by (simp add: moveItemDown_def)
next
  case (Some k)
  then have "moveItemDown br i st = snd (moveDownListItem br k st)"
    by (simp add: moveItemDown_def)
  then show ?thesis
    using events_moveDownListItem [of br k st] events_blur [of br "Suc k" st] by auto
qed

lemma events_removeAllItems:
  "events (removeAllItems br st) = events st \<or>
   (\<exists>p n. events (removeAllItems br st) =
     events st @ [[(''action'', Str ''edit''), (''previous'', Str p), (''new'', Str n)]])"
proof (cases "editedIndex (lis st) 0")
  case None
  then show ?thesis by (simp add: removeAllItems_def)
next
  case (Some k)
  then have "events (removeAllItems br st) = events (blur br k st)"
    by (simp add: removeAllItems_def)
  then show ?thesis using events_blur [of br k st] by simp
qed

text \<open>With no item under edit the four methods leave the events as they are.\<close>

lemma events_noItemEdited:
  assumes "noItemEdited st"
  shows "events (removeItem br i st) = events st" "events (moveItemUp br i st) = events st"
    "events (moveItemDown br i st) = events st" "events (removeAllItems br st) = events st"
proof -
  have b: "blur br k st = st" for k using assms by (rule blur_noItemEdited)
  show "events (removeItem br i st) = events st"
    by (simp add: removeItem_def events_removeListItem b split: option.splits)
  show "events (moveItemUp br i st) = events st"
    by (simp add: moveItemUp_def moveUpListItem_def b split: option.splits)
  show "events (moveItemDown br i st) = events st"
    by (simp add: moveItemDown_def moveDownListItem_def b split: option.splits)
  from assms have "editedIndex (lis st) 0 = None"
    by (simp add: editedIndex_None noItemEdited_def)
  then show "events (removeAllItems br st) = events st"
    by (simp add: removeAllItems_def)
qed

text \<open>
  Against C9 as stated: the second of the items \<open>a\<close>, \<open>b\<close>, \<open>c\<close> is under edit with \<open>z\<close>
  typed and no event has been dispatched. \<^verbatim>\<open>removeItem(1)\<close>, \<^verbatim>\<open>moveItemUp(1)\<close>,
  \<^verbatim>\<open>moveItemDown(0)\<close> and \<^verbatim>\<open>removeAllItems()\<close> take the edit input out of the tree, and its
  \<^verbatim>\<open>blur\<close> listener dispatches an edit event inside the call.
\<close>

theorem public_methods_dispatch_on_blur:
  "events ex_edit = []
   \<and> events (removeItem plainText 1 ex_edit) =
       [[(''action'', Str ''edit''), (''previous'', Str ''b''), (''new'', Str ''z'')]]
   \<and> events (moveItemUp plainText 1 ex_edit) =
       [[(''action'', Str ''edit''), (''previous'', Str ''b''), (''new'', Str ''z'')]]
   \<and> events (moveItemDown plainText 0 ex_edit) =
       [[(''action'', Str ''edit''), (''previous'', Str ''b''), (''new'', Str ''z'')]]
   \<and> events (removeAllItems plainText ex_edit) =
       [[(''action'', Str ''edit''), (''previous'', Str ''b''), (''new'', Str ''z'')]]"
  by (simp add: ex_edit_eq removeItem_def moveItemUp_def moveItemDown_def removeAllItems_def
        getLiAtIndex_def removeListItem_def moveUpListItem_def moveDownListItem_def blur_def
        itemEditFinished_def changeItem_private_def allowDuplicates_def getAttribute_def
        trim_examples Let_def dispatchEvent_def)

text \<open>
  Claim C9, amended. No public mutator calls \<^verbatim>\<open>dispatchEvent\<close>. \<^verbatim>\<open>addItems\<close> and
  \<^verbatim>\<open>changeItem\<close> leave the sequence of dispatched change events as it is, whatever their
  arguments and the state. So do \<^verbatim>\<open>removeItem\<close>, \<^verbatim>\<open>moveItemUp\<close>, \<^verbatim>\<open>moveItemDown\<close> and
  \<^verbatim>\<open>removeAllItems\<close> when no item is being edited. When one of these four takes the
  \<^verbatim>\<open>li\<close> that holds the focused edit input out of the tree, the \<^verbatim>\<open>blur\<close> listener of the
  input, \<^verbatim>\<open>#_itemEditFinished\<close>, runs inside the call and dispatches at most one event, an
  edit event. Change events arise only from the handlers of user gestures.
\<close>

theorem public_methods_dispatch_no_event:
  "events (addItems br vs st) = events st \<and> events (changeItem br i v st) = events st
   \<and> (events (removeItem br j st) = events st \<or>
       (\<exists>p n. events (removeItem br j st) =
          events st @ [[(''action'', Str ''edit''), (''previous'', Str p), (''new'', Str n)]]))
   \<and> (events (moveItemUp br j st) = events st \<or>
       (\<exists>p n. events (moveItemUp br j st) =
          events st @ [[(''action'', Str ''edit''), (''previous'', Str p), (''new'', Str n)]]))
   \<and> (events (moveItemDown br j st) = events st \<or>
       (\<exists>p n. events (moveItemDown br j st) =
          events st @ [[(''action'', Str ''edit''), (''previous'', Str p), (''new'', Str n)]]))
   \<and> (events (removeAllItems br st) = events st \<or>
       (\<exists>p n. events (removeAllItems br st) =
          events st @ [[(''action'', Str ''edit''), (''previous'', Str p), (''new'', Str n)]]))
   \<and> (noItemEdited st \<longrightarrow>
         events (removeItem br j st) = events st \<and> events (moveItemUp br j st) = events st
         \<and> events (moveItemDown br j st) = events st
         \<and> events (removeAllItems br st) = events st)"
proof -
  have "events (removeItem br j st) = events st \<and> events (moveItemUp br j st) = events st
      \<and> events (moveItemDown br j st) = events st \<and> events (removeAllItems br st) = events st"
    if "noItemEdited st"
    using that by (simp add: events_noItemEdited)
  then show ?thesis
    using events_addItems [of br vs st] events_changeItem [of br i v st]
      events_removeItem [of br j st] events_moveItemUp [of br j st]
      events_moveItemDown [of br j st] events_removeAllItems [of br st]
    by blast
qed

theorem public_methods_dispatch_no_event_witness:
  "events (addItems plainText [''d''] ex_abc) = []
   \<and> events (changeItem plainText 0 ''d'' ex_abc) = []
   \<and> events (addItems plainText [''d''] ex_edit) = []
   \<and> events (changeItem plainText 0 ''d'' ex_edit) = []
   \<and> events (removeItem plainText 0 ex_abc) = [] \<and> events (moveItemUp plainText 1 ex_abc) = []
   \<and> events (moveItemDown plainText 1 ex_abc) = [] \<and> events (removeAllItems plainText ex_abc) = []"
proof -
  have n: "noItemEdited ex_abc" "events ex_abc = []" "events ex_edit = []"
    by (simp_all add: noItemEdited_def ex_abc_eq ex_edit_eq)
  show ?thesis
    using public_methods_dispatch_no_event [of plainText "[''d'']" ex_abc 0 "''d''" 0]
      public_methods_dispatch_no_event [of plainText "[''d'']" ex_abc 0 "''d''" 1]
      public_methods_dispatch_no_event [of plainText "[''d'']" ex_edit 0 "''d''" 1]
      n
    by simp
qed

subsection \<open>The detail of a change event\<close>









subsection \<open>Duplicates are allowed unless the attribute is \<^verbatim>\<open>false\<close>\<close>

lemma allowDuplicates_lis [simp]: "allowDuplicates (st\<lparr>lis := ls\<rparr>) = allowDuplicates st"
  by (simp add: allowDuplicates_def getAttribute_def)










subsection \<open>A blank new value\<close>

text \<open>
  With a blank new value \<^verbatim>\<open>changeItem\<close> writes the \<^verbatim>\<open>innerText\<close> of the wrapper back into
  the wrapper as markup, and the end of an edit writes the \<^verbatim>\<open>innerText\<close> saved at its
  start.
\<close>

lemma changeItem_blank:
  assumes "getLiAtIndex st i = Some k" "trim s = []" "\<not> editing st"
  shows "lis (changeItem br i s st) =
         (lis st)[k := (lis st ! k)\<lparr>content := Text (innerText br (content (lis st ! k)))\<rparr>]"
  using assms by (simp add: changeItem_def changeItem_private_def Let_def)

lemma itemEditFinished_blank:
  assumes "editing st" "k < length (lis st)" "content (lis st ! k) = Input s pv"
    "trim s = []" "enterOrOther e"
  shows "lis (itemEditFinished br e k st) = (lis st)[k := (lis st ! k)\<lparr>content := Text pv\<rparr>]"
  using assms
  by (simp add: itemEditFinished_def changeItem_private_def Let_def dispatchEvent_def alert_def)

text \<open>
  Claim C10 fails on the code. The previous value that \<^verbatim>\<open>changeItem\<close> and \<^verbatim>\<open>#_itemEdit\<close>
  hand to \<^verbatim>\<open>#_changeItem\<close> is the \<^verbatim>\<open>innerText\<close> of the wrapper, and \<^verbatim>\<open>#_changeItem\<close> writes
  it back as \<^verbatim>\<open>innerHTML\<close>, which is what \<^verbatim>\<open>items()\<close> reads. An element with the one item
  \<^verbatim>\<open>"a "\<close> (the letter and a blank, added with \<^verbatim>\<open>addItems\<close>): the wrapper shows the text
  \<open>a\<close>, and after \<^verbatim>\<open>changeItem(0, " ")\<close>, and after a UI edit ended by Enter with a blank
  typed, the item is \<open>a\<close>.
\<close>

theorem blank_value_changes_item:
  "trim '' '' = []
   \<and> items plainText (addItems plainText [''a ''] ex_none) = [''a '']
   \<and> items plainText (changeItem plainText 0 '' '' (addItems plainText [''a ''] ex_none))
       = [''a'']
   \<and> items plainText (itemEditFinished plainText (KeyboardEvent ''Enter'') 0
        (userTypes 0 '' '' (itemEdit plainText 0 (addItems plainText [''a ''] ex_none))))
       = [''a'']"
  by (simp add: trim_examples ex_none_eq items_def decodeHtml_def plainText_simps
      allowDuplicates_def getAttribute_def itemHTML_def changeItem_def getLiAtIndex_def
      changeItem_private_def plainInnerText_examples Let_def itemEdit_def userTypes_def
      itemEditFinished_def dispatchEvent_def)

theorem blank_value_changes_item_witness:
  "items plainText (changeItem plainText 0 '' '' (addItems plainText [''a ''] ex_none))
     \<noteq> items plainText (addItems plainText [''a ''] ex_none)"
  using blank_value_changes_item by simp

subsection \<open>Unique items\<close>

text \<open>
  Claim C3 fails on the code. With \<^verbatim>\<open>allow-duplicates="false"\<close> and the one item \<open>a\<close>:
  the user starts to edit the item, a script calls \<^verbatim>\<open>addItems(["a"])\<close>, and the user ends
  the edit with Enter. \<^verbatim>\<open>#_valueExists\<close> reads \<^verbatim>\<open>innerText\<close>, which is empty for the wrapper
  that holds the edit input, so \<open>a\<close> is appended; at the end of the edit \<^verbatim>\<open>#_changeItem\<close>
  finds \<open>a\<close> in the other item and falls back to the saved value, which is \<open>a\<close> as well.
  The items are pairwise different before each of the three steps and \<open>a, a\<close> after the
  last one.
\<close>

theorem edit_after_addItems_duplicates:
  "distinct (items plainText ex_dup)
   \<and> distinct (items plainText (itemEdit plainText 0 ex_dup))
   \<and> distinct (items plainText (addItems plainText [''a''] (itemEdit plainText 0 ex_dup)))
   \<and> items plainText (itemEditFinished plainText (KeyboardEvent ''Enter'') 0
        (addItems plainText [''a''] (itemEdit plainText 0 ex_dup)))
       = [''a'', ''a'']"
  by (simp add: ex_dup_eq items_def decodeHtml_def itemEdit_def allowDuplicates_def
      getAttribute_def valueExists_def itemHTML_def itemEditFinished_def
      changeItem_private_def trim_examples Let_def alert_def dispatchEvent_def
      duplicatePrompt_def duplicatePromptDefault_def plainText_simps plainInnerText_examples)

theorem edit_after_addItems_duplicates_witness:
  "\<not> distinct
       (items plainText (itemEditFinished plainText (KeyboardEvent ''Enter'') 0
          (addItems plainText [''a''] (itemEdit plainText 0 ex_dup))))"
  using edit_after_addItems_duplicates by simp

end
